theory Spec2Isabelle
  imports Main "HOL-Library.Word"
begin

section \<open>JavaScript strings and values\<close>

text \<open>
  A JavaScript string is a sequence of UTF-16 code units. String literals of the
  script are written with \<open>js\<close>, which maps each ASCII character to its code unit;
  code units beyond ASCII are written as numerals.
\<close>

type_synonym jsstring = "16 word list"

definition js :: "string \<Rightarrow> jsstring" where
  "js s = map of_char s"

text \<open>
  The values that reach the helpers of the script: \<open>undefined\<close> (a missing
  property) and what a field of a JSON body can hold: \<open>null\<close>, a boolean, a
  number, a string, an object or an array. The script looks at such a value in
  two ways only, by \<open>ToBoolean\<close> (in \<open>!\<close>, \<open>&&\<close>, \<open>||\<close> and \<open>?:\<close>) and by
  \<open>ToString\<close> (in \<open>new Error(msg)\<close> and in the assignment to \<open>textContent\<close>), so
  \<^item> a number is given by the text that \<open>Number::toString\<close> prints for it
    (\<open>42\<close>, \<open>-1.5\<close>, \<open>1e+21\<close>; both zeros print \<open>0\<close>), which determines it
    up to the sign of zero;
  \<^item> an object or array is given by the text that its conversion to a string
    yields: \<open>[object Object]\<close> for an object, the elements joined by commas
    for an array.
  A JSON object with an own property \<open>toString\<close> cannot be converted to a string
  (the conversion throws a \<open>TypeError\<close>); such a field value is outside this
  model.
\<close>

datatype jsval =
    Undefined
  | Null
  | Bool bool
  | Num jsstring
  | Str jsstring
  | Obj jsstring

text \<open>
  \<open>ToBoolean\<close>: \<open>undefined\<close>, \<open>null\<close>, \<open>false\<close>, the zeros, \<open>NaN\<close> and the empty
  string are falsy; every object and array is truthy.
\<close>

fun truthy :: "jsval \<Rightarrow> bool" where
  "truthy Undefined = False"
| "truthy Null = False"
| "truthy (Bool b) = b"
| "truthy (Num t) = (t \<noteq> js ''0'' \<and> t \<noteq> js ''NaN'')"
| "truthy (Str s) = (s \<noteq> [])"
| "truthy (Obj t) = True"

text \<open>\<open>ToString\<close>, the conversion of a value to a string.\<close>

fun ToString :: "jsval \<Rightarrow> jsstring" where
  "ToString Undefined = js ''undefined''"
| "ToString Null = js ''null''"
| "ToString (Bool b) = (if b then js ''true'' else js ''false'')"
| "ToString (Num t) = t"
| "ToString (Str s) = s"
| "ToString (Obj t) = t"

text \<open>
  \<open>String(n)\<close> and \<open>`${n}`\<close> for a non-negative integer \<open>n\<close> below \<open>10^21\<close>
  (an HTTP status, a millisecond timestamp): its decimal digits.
\<close>

function decimal :: "nat \<Rightarrow> jsstring" where
  "decimal n = (if n < 10 then [of_nat (48 + n)]
                else decimal (n div 10) @ [of_nat (48 + n mod 10)])"
  by pat_completeness auto
termination
  by (relation "measure id") auto

declare decimal.simps [simp del]

text \<open>
  \<open>String.prototype.trim\<close> removes leading and trailing white space and line
  terminators (ECMAScript \<open>WhiteSpace\<close> and \<open>LineTerminator\<close>).
\<close>

definition isWhiteSpace :: "16 word \<Rightarrow> bool" where
  "isWhiteSpace c =
     (c = 0x9 \<or> c = 0xA \<or> c = 0xB \<or> c = 0xC \<or> c = 0xD \<or> c = 0x20 \<or> c = 0xA0
      \<or> c = 0x1680 \<or> (0x2000 \<le> c \<and> c \<le> 0x200A) \<or> c = 0x2028 \<or> c = 0x2029
      \<or> c = 0x202F \<or> c = 0x205F \<or> c = 0x3000 \<or> c = 0xFEFF)"

definition trim :: "jsstring \<Rightarrow> jsstring" where
  "trim s = rev (dropWhile isWhiteSpace (rev (dropWhile isWhiteSpace s)))"

section \<open>The document object model, as far as the script uses it\<close>

text \<open>
  \<open>sanitizeHTML\<close> assigns to \<open>textContent\<close> of a fresh \<open>div\<close> and reads
  \<open>innerHTML\<close> back. The assignment makes the string the data of one text node
  (no node for the empty string); reading \<open>innerHTML\<close> serialises that text node
  with the HTML fragment serialisation algorithm, which escapes a string by
  replacing \<open>&\<close> by \<open>&amp;\<close>, U+00A0 by \<open>&nbsp;\<close>, \<open><\<close> by \<open>&lt;\<close> and
  \<open>>\<close> by \<open>&gt;\<close>. No replacement produces a character that a later one
  rewrites, except \<open>&\<close>, which is replaced first; so the algorithm is a map
  over the code units.
\<close>

definition escapeUnit :: "16 word \<Rightarrow> jsstring" where
  "escapeUnit c =
     (if c = 0x26 then js ''&amp;''
      else if c = 0xA0 then js ''&nbsp;''
      else if c = 0x3C then js ''&lt;''
      else if c = 0x3E then js ''&gt;''
      else [c])"

definition serializeText :: "jsstring \<Rightarrow> jsstring" where
  "serializeText s = concat (map escapeUnit s)"

section \<open>Helpers\<close>

text \<open>
  \<^verbatim>\<open>function sanitizeHTML(text) {
    const div = document.createElement("div");
    div.textContent = text ?? "";
    return div.innerHTML; }\<close>
  \<open>nullish_text\<close> is the string that \<open>textContent\<close> receives: the empty
  string for \<open>null\<close> and \<open>undefined\<close>, otherwise the value converted to a
  string by the assignment.
\<close>

definition nullish_text :: "jsval \<Rightarrow> jsstring" where
  "nullish_text text =
     (case text of Undefined \<Rightarrow> [] | Null \<Rightarrow> [] | _ \<Rightarrow> ToString text)"

definition sanitizeHTML :: "jsval \<Rightarrow> jsstring" where
  "sanitizeHTML text = serializeText (nullish_text text)"

text \<open>\<^verbatim>\<open>s.replace(/\n/g, "<br>")\<close>: every line feed becomes the four units of \<open><br>\<close>.\<close>

definition replace_newlines :: "jsstring \<Rightarrow> jsstring" where
  "replace_newlines s = concat (map (\<lambda>c. if c = 0xA then js ''<br>'' else [c]) s)"

text \<open>
  \<^verbatim>\<open>function formatResponse(text) {
    return sanitizeHTML(text).replace(/\n/g, "<br>"); }\<close>
\<close>

definition formatResponse :: "jsval \<Rightarrow> jsstring" where
  "formatResponse text = replace_newlines (sanitizeHTML text)"

section \<open>Inserting markup and reading it back\<close>

text \<open>
  The script inserts markup by assigning to \<open>innerHTML\<close>, which runs the HTML
  fragment parser of the platform on the string. The model below covers what
  that parser does to character data inside a \<open>div\<close>, following the HTML
  Standard:
  \<^item> preprocessing of the input stream replaces every CR LF pair and every
    remaining CR by one LF;
  \<^item> in the data state \<open>&\<close> starts a character reference; the references that
    the serialiser can produce (\<open>&amp;\<close>, \<open>&lt;\<close>, \<open>&gt;\<close>, \<open>&nbsp;\<close>) and
    \<open>&quot;\<close> are decoded, an \<open>&\<close> followed by neither \<open>#\<close> nor an ASCII
    letter or digit is a literal \<open>&\<close>, and every other reference is outside
    the model (\<open>NotModelled\<close>);
  \<^item> \<open><\<close> followed by an ASCII letter, \<open>/\<close>, \<open>!\<close> or \<open>?\<close> opens a tag, a
    comment or a declaration (\<open>Markup\<close>: the string is no longer character data
    only), any other \<open><\<close> is a literal \<open><\<close>;
  \<^item> U+0000 is dropped by the tree builder;
  \<^item> every other code unit is character data.
  The result \<open>TextOnly t\<close> says that the string parses to character data only,
  and that \<open>t\<close> is what \<open>textContent\<close> of the parent reads back.
\<close>

fun normalize_newlines :: "jsstring \<Rightarrow> jsstring" where
  "normalize_newlines [] = []"
| "normalize_newlines [c] = [if c = 0xD then 0xA else c]"
| "normalize_newlines (c # d # s) =
     (if c = 0xD \<and> d = 0xA then 0xA # normalize_newlines s
      else (if c = 0xD then 0xA else c) # normalize_newlines (d # s))"

datatype parsed = TextOnly jsstring | Markup | NotModelled

fun add_unit :: "16 word \<Rightarrow> parsed \<Rightarrow> parsed" where
  "add_unit c (TextOnly t) = TextOnly (c # t)"
| "add_unit c Markup = Markup"
| "add_unit c NotModelled = NotModelled"

definition starts_with :: "jsstring \<Rightarrow> jsstring \<Rightarrow> bool" where
  "starts_with p s = (take (length p) s = p)"

definition isAsciiAlpha :: "16 word \<Rightarrow> bool" where
  "isAsciiAlpha c = ((0x41 \<le> c \<and> c \<le> 0x5A) \<or> (0x61 \<le> c \<and> c \<le> 0x7A))"

definition isAsciiDigit :: "16 word \<Rightarrow> bool" where
  "isAsciiDigit c = (0x30 \<le> c \<and> c \<le> 0x39)"

fun tokenize_text :: "jsstring \<Rightarrow> parsed" where
  "tokenize_text [] = TextOnly []"
| "tokenize_text (c # s) =
     (if c = 0x3C then
        (case s of [] \<Rightarrow> TextOnly [c]
         | d # _ \<Rightarrow>
             if d = 0x21 \<or> d = 0x2F \<or> d = 0x3F \<or> isAsciiAlpha d then Markup
             else add_unit c (tokenize_text s))
      else if c = 0x26 then
        (if starts_with (js ''amp;'') s then add_unit 0x26 (tokenize_text (drop 4 s))
         else if starts_with (js ''lt;'') s then add_unit 0x3C (tokenize_text (drop 3 s))
         else if starts_with (js ''gt;'') s then add_unit 0x3E (tokenize_text (drop 3 s))
         else if starts_with (js ''nbsp;'') s then add_unit 0xA0 (tokenize_text (drop 5 s))
         else if starts_with (js ''quot;'') s then add_unit 0x22 (tokenize_text (drop 5 s))
         else (case s of [] \<Rightarrow> TextOnly [c]
               | d # _ \<Rightarrow>
                   if d = 0x23 \<or> isAsciiAlpha d \<or> isAsciiDigit d then NotModelled
                   else add_unit c (tokenize_text s)))
      else if c = 0 then tokenize_text s
      else add_unit c (tokenize_text s))"

definition insert_and_read :: "jsstring \<Rightarrow> parsed" where
  "insert_and_read markup = tokenize_text (normalize_newlines markup)"

text \<open>
  The markup that the Sanitizer produces: code units other than \<open>&\<close>, \<open><\<close> and
  \<open>>\<close>, the four references of the serialiser, and \<open><br>\<close> elements.
\<close>

fun sanitized :: "jsstring \<Rightarrow> bool" where
  "sanitized [] = True"
| "sanitized (c # s) =
     (if c = 0x26 then
        (if starts_with (js ''amp;'') s then sanitized (drop 4 s)
         else if starts_with (js ''lt;'') s then sanitized (drop 3 s)
         else if starts_with (js ''gt;'') s then sanitized (drop 3 s)
         else if starts_with (js ''nbsp;'') s then sanitized (drop 5 s)
         else False)
      else if c = 0x3C then
        (if starts_with (js ''br>'') s then sanitized (drop 3 s) else False)
      else if c = 0x3E then False
      else sanitized s)"

section \<open>Session identity\<close>







section \<open>Transport\<close>

text \<open>
  \<open>fetch\<close> either rejects (no response: a network failure) or resolves to a
  response with a status and a body. \<open>res.json()\<close> rejects on a body that is
  not JSON, and the script then keeps \<open>data = null\<close>. A parsed body is \<open>null\<close>,
  an object, given by the values of its fields, or another JSON value (a number,
  string, boolean or array), of which the script observes the truthiness only:
  such a value has no property \<open>error\<close> or \<open>response\<close>. \<open>get_field\<close> is the
  property access \<open>data.error\<close> or \<open>data.response\<close>, which gives \<open>undefined\<close>
  for a missing field.
\<close>

datatype js_error = Error (message: jsstring)

datatype parsed_body =
    NotJSON
  | JsonNull
  | JsonObject "jsstring \<rightharpoonup> jsval"
  | JsonOther bool

datatype fetch_result = NetworkFailure js_error | Response (status: nat) (body: parsed_body)

fun data_truthy :: "parsed_body \<Rightarrow> bool" where
  "data_truthy NotJSON = False"
| "data_truthy JsonNull = False"
| "data_truthy (JsonObject obj) = True"
| "data_truthy (JsonOther t) = t"

fun get_field :: "parsed_body \<Rightarrow> jsstring \<Rightarrow> jsval" where
  "get_field (JsonObject obj) k = (case obj k of None \<Rightarrow> Undefined | Some v \<Rightarrow> v)"
| "get_field _ k = Undefined"

definition res_ok :: "nat \<Rightarrow> bool" where
  "res_ok st = (200 \<le> st \<and> st \<le> 299)"

text \<open>
  \<^verbatim>\<open>let data = null;
  try { data = await res.json(); } catch (_) {}
  if (!res.ok) {
    const msg = (data && data.error) ? data.error : `HTTP ${res.status}`;
    throw new Error(msg);
  }
  return (data && data.response) ? data.response : "";\<close>
  The part of \<open>sendMessage\<close> that runs once \<open>fetch\<close> has settled; \<open>Inl\<close> is the
  rejection of the promise.
\<close>

definition sendMessage_settle :: "fetch_result \<Rightarrow> js_error + jsval" where
  "sendMessage_settle fr =
     (case fr of
        NetworkFailure e \<Rightarrow> Inl e
      | Response st data \<Rightarrow>
          if \<not> res_ok st then
            Inl (Error (if data_truthy data \<and> truthy (get_field data (js ''error''))
                        then ToString (get_field data (js ''error''))
                        else js ''HTTP '' @ decimal st))
          else
            Inr (if data_truthy data \<and> truthy (get_field data (js ''response''))
                 then get_field data (js ''response'')
                 else Str []))"

section \<open>The widget\<close>

record request =
  req_message :: jsstring
  req_session_id :: jsstring

text \<open>
  The state that the handlers read and write: the module-level \<open>sid\<close>,
  \<open>inputEl.value\<close>, \<open>sendBtn.disabled\<close>, whether \<open>inputEl\<close> has the focus,
  \<open>chatBox.innerHTML\<close>, the number of \<open>scrollTo\<close> calls, the bodies of the
  requests that \<open>fetch\<close> has been called with, and what \<open>console.error\<close> has
  logged.
\<close>

record widget =
  sid :: jsstring
  inputValue :: jsstring
  sendDisabled :: bool
  inputFocused :: bool
  chatBox :: jsstring
  scrolls :: nat
  requests :: "request list"
  console :: "js_error list"

definition bubble :: "jsstring \<Rightarrow> jsstring \<Rightarrow> jsstring" where
  \<open>bubble cls inner = js ''<div class="'' @ cls @ js ''">'' @ inner @ js ''</div>''\<close>

text \<open>
  \<^verbatim>\<open>function addUserBubble(text) {
    chatBox.innerHTML += `<div class="user-message">${sanitizeHTML(text)}</div>`;
    chatBox.scrollTo({ top: chatBox.scrollHeight, behavior: "smooth" }); }\<close>
\<close>

definition addUserBubble :: "jsval \<Rightarrow> widget \<Rightarrow> widget" where
  "addUserBubble text s =
     s\<lparr>chatBox := chatBox s @ bubble (js ''user-message'') (sanitizeHTML text),
       scrolls := Suc (scrolls s)\<rparr>"

text \<open>
  \<^verbatim>\<open>function addBotBubble(text, isError = false) {
    const cls = isError ? "bot-message error" : "bot-message";
    chatBox.innerHTML += `<div class="${cls}">${formatResponse(text)}</div>`;
    chatBox.scrollTo({ top: chatBox.scrollHeight, behavior: "smooth" }); }\<close>
\<close>

definition addBotBubble :: "jsval \<Rightarrow> bool \<Rightarrow> widget \<Rightarrow> widget" where
  "addBotBubble text isError s =
     (let cls = (if isError then js ''bot-message error'' else js ''bot-message'')
      in s\<lparr>chatBox := chatBox s @ bubble cls (formatResponse text),
            scrolls := Suc (scrolls s)\<rparr>)"

text \<open>The call of \<open>fetch\<close> in \<open>sendMessage\<close>: one POST with the text and the \<open>sid\<close>.\<close>

definition sendMessage_start :: "jsstring \<Rightarrow> widget \<Rightarrow> widget" where
  "sendMessage_start text s =
     s\<lparr>requests := requests s @ [\<lparr>req_message = text, req_session_id = sid s\<rparr>]\<rparr>"

text \<open>
  \<open>handleSend\<close> up to its \<open>await\<close>:
  \<^verbatim>\<open>const text = (inputEl.value || "").trim();
  if (!text) return;
  addUserBubble(text);
  inputEl.value = "";
  sendBtn.disabled = true;
  ... await sendMessage(text)\<close>
\<close>

definition handleSend_start :: "widget \<Rightarrow> widget" where
  "handleSend_start s =
     (let text = trim (if inputValue s \<noteq> [] then inputValue s else [])
      in if text = [] then s
         else sendMessage_start text
                ((addUserBubble (Str text) s)\<lparr>inputValue := [], sendDisabled := True\<rparr>))"

text \<open>
  \<open>handleSend\<close> from the point where \<open>sendMessage\<close> has settled:
  \<^verbatim>\<open>try {
    const reply = await sendMessage(text);
    addBotBubble(reply);
  } catch (err) {
    console.error("Chat error:", err);
    addBotBubble("Error contacting the AI Advisor: " + (err.message || "request failed"), true);
  } finally {
    sendBtn.disabled = false;
    inputEl.focus();
  }\<close>
  The first component of the result is the exception that leaves \<open>handleSend\<close>,
  if any.
\<close>

definition handleSend_resume :: "js_error + jsval \<Rightarrow> widget \<Rightarrow> js_error option \<times> widget" where
  "handleSend_resume outcome s =
     (let (thrown, s1) =
            (case outcome of
               Inr reply \<Rightarrow> (None, addBotBubble reply False s)
             | Inl err \<Rightarrow> (Some err, s));
          (thrown', s2) =
            (case thrown of
               None \<Rightarrow> (None, s1)
             | Some err \<Rightarrow>
                 (None,
                  addBotBubble
                    (Str (js ''Error contacting the AI Advisor: ''
                          @ (if message err \<noteq> [] then message err else js ''request failed'')))
                    True (s1\<lparr>console := console s1 @ [err]\<rparr>)))
      in (thrown', s2\<lparr>sendDisabled := False, inputFocused := True\<rparr>))"

definition handleSend_settle :: "fetch_result \<Rightarrow> widget \<Rightarrow> js_error option \<times> widget" where
  "handleSend_settle fr s = handleSend_resume (sendMessage_settle fr) s"

text \<open>The greeting of the \<open>load\<close> listener.\<close>

definition greeting :: jsstring where
  "greeting = js ''Merhaba! T'' @ [0xFC] @ js ''rk finansal mevzuatla ilgili sorunu yaz, yard''
     @ [0x131] @ js ''mc'' @ [0x131] @ js '' olay'' @ [0x131] @ js ''m.''"

text \<open>
  What can happen to the page:
  \<^item> \<open>Click\<close>: the user activates \<open>sendBtn\<close>; the platform delivers no click to
    a disabled button, otherwise the listener \<open>handleSend\<close> runs;
  \<^item> \<open>Keydown key shiftKey\<close> on \<open>inputEl\<close>:
    \<^verbatim>\<open>if (ev.key === "Enter" && !ev.shiftKey) { ev.preventDefault(); handleSend(); }\<close>
  \<^item> \<open>Input v\<close>: the user edits the input field, whose value becomes \<open>v\<close>;
  \<^item> \<open>Settle fr\<close>: the \<open>fetch\<close> of a send in flight settles with \<open>fr\<close>;
  \<^item> \<open>Load found\<close>: the \<open>load\<close> listener, where \<open>found\<close> says whether
    \<open>chatBox.querySelector(".bot-message, .user-message")\<close> finds an element:
    \<^verbatim>\<open>if (!chatBox.querySelector(...)) { addBotBubble("Merhaba! ..."); }\<close>
\<close>

datatype event =
    Click
  | Keydown jsstring bool
  | Input jsstring
  | Settle fetch_result
  | Load bool

fun step :: "event \<Rightarrow> widget \<Rightarrow> widget" where
  "step Click s = (if sendDisabled s then s else handleSend_start s)"
| "step (Keydown key shiftKey) s =
     (if key = js ''Enter'' \<and> \<not> shiftKey then handleSend_start s else s)"
| "step (Input v) s = s\<lparr>inputValue := v\<rparr>"
| "step (Settle fr) s = snd (handleSend_settle fr s)"
| "step (Load found) s = (if \<not> found then addBotBubble (Str greeting) False s else s)"

text \<open>A page with an empty conversation, for the examples.\<close>

definition fresh_page :: widget where
  "fresh_page = \<lparr>sid = js ''0f8fad5b-d9cb-469f-a165-70867728950e'', inputValue = [],
     sendDisabled = False, inputFocused = True, chatBox = [], scrolls = 0,
     requests = [], console = []\<rparr>"

section \<open>Properties of the helpers\<close>

lemma serializeText_append: "serializeText (a @ b) = serializeText a @ serializeText b"
  by (simp add: serializeText_def)

lemma replace_newlines_append:
  "replace_newlines (a @ b) = replace_newlines a @ replace_newlines b"
  by (simp add: replace_newlines_def)

lemma escapeUnit_no_newline: "c \<noteq> 0xA \<Longrightarrow> 0xA \<notin> set (escapeUnit c)"
  by (simp add: escapeUnit_def js_def)

lemma serializeText_no_newline: "0xA \<notin> set s \<Longrightarrow> 0xA \<notin> set (serializeText s)"
  by (induction s) (auto simp: serializeText_def dest: escapeUnit_no_newline)

lemma replace_newlines_id: "0xA \<notin> set s \<Longrightarrow> replace_newlines s = s"
  by (induction s) (auto simp: replace_newlines_def)

lemma serializeText_Cons: "serializeText (c # s) = escapeUnit c @ serializeText s"
  by (simp add: serializeText_def)

lemma escapeUnit_newline: "escapeUnit 0xA = [0xA]"
  by (simp add: escapeUnit_def)

lemma replace_newlines_Cons:
  "replace_newlines (c # s) = (if c = 0xA then js ''<br>'' else [c]) @ replace_newlines s"
  by (simp add: replace_newlines_def)

lemma replace_newlines_no_newline: "0xA \<notin> set (replace_newlines s)"
  by (induction s) (simp_all add: replace_newlines_Cons js_def, simp add: replace_newlines_def)

lemma breaks_of_escapeUnit:
  "filter (\<lambda>u. u = 0x3C) (replace_newlines (escapeUnit c)) = (if c = 0xA then [0x3C] else [])"
  by (simp add: escapeUnit_def replace_newlines_def js_def)

lemma breaks_of_serializeText:
  "length (filter (\<lambda>u. u = 0x3C) (replace_newlines (serializeText s)))
     = length (filter (\<lambda>u. u = 0xA) s)"
proof (induction s)
  case Nil
  show ?case by (simp add: serializeText_def replace_newlines_def)
next
  case (Cons c s)
  then show ?case
    by (simp add: serializeText_Cons replace_newlines_append breaks_of_escapeUnit)
qed

lemma formatResponse_split:
  "formatResponse (Str (a @ [0xA] @ b))
     = formatResponse (Str a) @ js ''<br>'' @ formatResponse (Str b)"
  by (simp add: formatResponse_def sanitizeHTML_def nullish_text_def
      serializeText_append serializeText_Cons escapeUnit_newline
      replace_newlines_append replace_newlines_Cons)

lemma formatResponse_line: "0xA \<notin> set a \<Longrightarrow> formatResponse (Str a) = sanitizeHTML (Str a)"
  by (simp add: formatResponse_def sanitizeHTML_def nullish_text_def replace_newlines_id
      serializeText_no_newline)

text \<open>
  Claim C6. \<open>formatResponse\<close> escapes first and then turns every line feed of the
  escaped text into the break element \<open><br>\<close>: no line feed is left in its
  output; at each line feed of the text the output is the formatted part before
  it, one \<open><br>\<close> and the formatted part after it; a text without line feeds is
  just escaped. The breaks are never escaped: the output holds as many \<open><\<close> as
  the text has line feeds. So for line-free texts \<open>a\<close> and \<open>b\<close>, formatting \<open>a\<close>,
  a line feed and \<open>b\<close> gives the escaped \<open>a\<close>, one \<open><br>\<close> and the escaped \<open>b\<close>.
\<close>

theorem formatResponse_newline:
  "formatResponse text = replace_newlines (sanitizeHTML text)
   \<and> 0xA \<notin> set (formatResponse text)
   \<and> length (filter (\<lambda>u. u = 0x3C) (formatResponse text))
       = length (filter (\<lambda>u. u = 0xA) (nullish_text text))
   \<and> formatResponse (Str (a @ [0xA] @ b))
       = formatResponse (Str a) @ js ''<br>'' @ formatResponse (Str b)
   \<and> (0xA \<notin> set a \<longrightarrow> formatResponse (Str a) = sanitizeHTML (Str a))
   \<and> (0xA \<notin> set a \<and> 0xA \<notin> set b \<longrightarrow>
        formatResponse (Str (a @ [0xA] @ b))
          = sanitizeHTML (Str a) @ js ''<br>'' @ sanitizeHTML (Str b))"
proof -
  have every: "0xA \<notin> set (formatResponse text)"
    by (simp add: formatResponse_def replace_newlines_no_newline)
  have breaks: "length (filter (\<lambda>u. u = 0x3C) (formatResponse text))
       = length (filter (\<lambda>u. u = 0xA) (nullish_text text))"
    by (simp add: formatResponse_def sanitizeHTML_def breaks_of_serializeText)
  have two: "formatResponse (Str (a @ [0xA] @ b))
          = sanitizeHTML (Str a) @ js ''<br>'' @ sanitizeHTML (Str b)"
    if "0xA \<notin> set a" and "0xA \<notin> set b"
    using that formatResponse_split [of a b] formatResponse_line [of a]
      formatResponse_line [of b]
    by simp
  from every breaks two show ?thesis
    using formatResponse_split [of a b] formatResponse_line [of a]
    by (simp add: formatResponse_def)
qed

theorem formatResponse_newline_witness:
  "formatResponse (Str (js ''a'' @ [0xA] @ js ''b''))
     = sanitizeHTML (Str (js ''a'')) @ js ''<br>'' @ sanitizeHTML (Str (js ''b''))
   \<and> formatResponse (Str (js ''a'' @ [0xA] @ js ''b'')) = js ''a<br>b''
   \<and> formatResponse (Str (js ''a<'' @ [0xA] @ js ''b'' @ [0xA] @ js ''c'')) = js ''a&lt;<br>b<br>c''"
proof -
  have "(0xA::16 word) \<notin> set (js ''a'') \<and> (0xA::16 word) \<notin> set (js ''b'')"
    by (simp add: js_def)
  then have "formatResponse (Str (js ''a'' @ [0xA] @ js ''b''))
     = sanitizeHTML (Str (js ''a'')) @ js ''<br>'' @ sanitizeHTML (Str (js ''b''))"
    using formatResponse_newline [of Null "js ''a''" "js ''b''"] by blast
  moreover have "formatResponse (Str (js ''a<'' @ [0xA] @ js ''b'' @ [0xA] @ js ''c''))
      = js ''a&lt;<br>b<br>c''"
    by (simp add: formatResponse_def replace_newlines_def sanitizeHTML_def nullish_text_def
        serializeText_def escapeUnit_def js_def)
  ultimately show ?thesis
    by (simp add: sanitizeHTML_def nullish_text_def serializeText_def escapeUnit_def js_def)
qed

section \<open>The round trip through the document tree\<close>

lemma tokenize_escapeUnit:
  "tokenize_text (escapeUnit c @ t) = (if c = 0 then tokenize_text t else add_unit c (tokenize_text t))"
  by (simp add: escapeUnit_def js_def starts_with_def)

lemma tokenize_serializeText:
  "tokenize_text (serializeText s) = TextOnly (filter (\<lambda>c. c \<noteq> 0) s)"
  by (induction s) (simp_all add: serializeText_Cons tokenize_escapeUnit serializeText_def)

lemma normalize_Cons: "c \<noteq> 0xD \<Longrightarrow> normalize_newlines (c # s) = c # normalize_newlines s"
  by (cases s) simp_all

lemma normalize_prefix: "0xD \<notin> set u \<Longrightarrow> normalize_newlines (u @ r) = u @ normalize_newlines r"
  by (induction u) (simp_all add: normalize_Cons)

lemma normalize_id: "0xD \<notin> set s \<Longrightarrow> normalize_newlines s = s"
  using normalize_prefix [of s "[]"] by simp

lemma escapeUnit_no_CR: "c \<noteq> 0xD \<Longrightarrow> 0xD \<notin> set (escapeUnit c)"
  by (simp add: escapeUnit_def js_def)

lemma escapeUnit_head: "d \<noteq> 0xA \<Longrightarrow> \<exists>e es. escapeUnit d = e # es \<and> e \<noteq> 0xA"
  by (simp add: escapeUnit_def js_def)

lemma escapeUnit_CR: "escapeUnit 0xD = [0xD]"
  by (simp add: escapeUnit_def)

lemma normalize_serializeText:
  "normalize_newlines (serializeText s) = serializeText (normalize_newlines s)"
proof (induction s rule: normalize_newlines.induct)
  case 1
  show ?case by (simp add: serializeText_def)
next
  case (2 c)
  show ?case
    by (simp add: serializeText_def escapeUnit_def js_def)
next
  case (3 c d s)
  show ?case
  proof (cases "c = 0xD")
    case False
    then have "normalize_newlines (serializeText (c # d # s))
        = escapeUnit c @ normalize_newlines (serializeText (d # s))"
      by (simp add: serializeText_Cons normalize_prefix escapeUnit_no_CR del: normalize_newlines.simps)
    with False 3 show ?thesis
      by (simp add: serializeText_Cons)
  next
    case True
    show ?thesis
    proof (cases "d = 0xA")
      case True
      with \<open>c = 0xD\<close> 3 show ?thesis
        by (simp add: serializeText_Cons escapeUnit_CR escapeUnit_newline)
    next
      case False
      obtain e es where e: "escapeUnit d = e # es" "e \<noteq> 0xA"
        using escapeUnit_head [OF False] by blast
      with \<open>c = 0xD\<close> False 3 show ?thesis
        by (simp add: serializeText_Cons escapeUnit_CR escapeUnit_newline)
    qed
  qed
qed

lemma insert_and_read_sanitizeHTML:
  "insert_and_read (sanitizeHTML text)
     = TextOnly (filter (\<lambda>c. c \<noteq> 0) (normalize_newlines (nullish_text text)))"
  by (simp add: insert_and_read_def sanitizeHTML_def normalize_serializeText
      tokenize_serializeText)

text \<open>
  Claim C5, amended. For every input, \<open>null\<close> and \<open>undefined\<close> included (they
  count as the empty string), the output of \<open>sanitizeHTML\<close> inserted as markup
  parses to character data only, and reading it back gives the input with its
  line breaks normalised (CR LF and CR become LF) and its U+0000 units dropped;
  so an input without CR and U+0000 is read back exactly.
\<close>

theorem sanitizeHTML_round_trip:
  "insert_and_read (sanitizeHTML text)
     = TextOnly (filter (\<lambda>c. c \<noteq> 0) (normalize_newlines (nullish_text text)))
   \<and> (0 \<notin> set s \<and> 0xD \<notin> set s \<longrightarrow> insert_and_read (sanitizeHTML (Str s)) = TextOnly s)
   \<and> sanitizeHTML Null = [] \<and> sanitizeHTML Undefined = []"
proof -
  have "insert_and_read (sanitizeHTML (Str s)) = TextOnly s"
    if "0 \<notin> set s" and "0xD \<notin> set s"
  proof -
    have "filter (\<lambda>c. c \<noteq> 0) s = s"
      using that(1) by (induction s) auto
    with that(2) show ?thesis
      by (simp add: insert_and_read_sanitizeHTML nullish_text_def normalize_id)
  qed
  moreover have "sanitizeHTML Null = [] \<and> sanitizeHTML Undefined = []"
    by (simp add: sanitizeHTML_def nullish_text_def serializeText_def)
  ultimately show ?thesis
    using insert_and_read_sanitizeHTML by blast
qed

theorem sanitizeHTML_round_trip_witness:
  \<open>insert_and_read (sanitizeHTML (Str (js ''<img src=x onerror="f()"> & '' @ [0xA0, 0xA, 0x131])))
     = TextOnly (js ''<img src=x onerror="f()"> & '' @ [0xA0, 0xA, 0x131])\<close>
proof -
  have \<open>(0::16 word) \<notin> set (js ''<img src=x onerror="f()"> & '' @ [0xA0, 0xA, 0x131])
      \<and> (0xD::16 word) \<notin> set (js ''<img src=x onerror="f()"> & '' @ [0xA0, 0xA, 0x131])\<close>
    by (simp add: js_def)
  then show ?thesis
    using sanitizeHTML_round_trip
      [of Null \<open>js ''<img src=x onerror="f()"> & '' @ [0xA0, 0xA, 0x131]\<close>]
    by blast
qed

lemma unescaped_markup_is_parsed:
  \<open>insert_and_read (js ''<img src=x onerror="f()">'') = Markup\<close>
  by (simp add: insert_and_read_def js_def isAsciiAlpha_def)

text \<open>
  The round trip of claim C5 as stated fails on a carriage return: it is read back
  as a line feed.
\<close>

theorem sanitizeHTML_round_trip_CR:
  "insert_and_read (sanitizeHTML (Str [0xD])) = TextOnly [0xA] \<and>
   insert_and_read (sanitizeHTML (Str [0xD])) \<noteq> TextOnly [0xD]"
  by (simp add: insert_and_read_def sanitizeHTML_def nullish_text_def serializeText_def
      escapeUnit_def)

section \<open>The session identifier\<close>








section \<open>The transport client\<close>

lemma field_truthy:
  "(data_truthy data \<and> truthy (get_field data k)) = truthy (get_field data k)"
  by (cases data) auto

lemma sendMessage_settle_not_ok:
  "\<not> res_ok st \<Longrightarrow>
   sendMessage_settle (Response st data)
     = Inl (Error (if truthy (get_field data (js ''error''))
                   then ToString (get_field data (js ''error''))
                   else js ''HTTP '' @ decimal st))"
  by (simp add: sendMessage_settle_def field_truthy)

lemma sendMessage_settle_ok:
  "res_ok st \<Longrightarrow>
   sendMessage_settle (Response st data)
     = Inr (if truthy (get_field data (js ''response''))
            then get_field data (js ''response'')
            else Str [])"
  by (simp add: sendMessage_settle_def field_truthy)

lemma get_field_no_object:
  "get_field NotJSON k = Undefined \<and> get_field JsonNull k = Undefined
   \<and> get_field (JsonOther t) k = Undefined"
  by simp

text \<open>
  Claim C3, amended. Once \<open>fetch\<close> has given a response, \<open>sendMessage\<close> rejects
  exactly when the status is outside 200..299. The message of the rejection is
  the \<open>error\<close> field of the parsed body, converted to a string, when the body is
  an object with that field and the field is truthy (a string is truthy when it
  is not empty); otherwise, that is for a missing or falsy field and for a body
  that is not an object or not JSON, it is \<open>HTTP\<close> followed by the status. On a
  status in 200..299 it resolves to the \<open>response\<close> field when that is truthy
  and to the empty string otherwise. A body that is not JSON never makes it
  throw: it behaves as a body without fields. When \<open>fetch\<close> itself rejects,
  that rejection is the result.
\<close>

theorem sendMessage_settle_outcome:
  "((\<exists>e. sendMessage_settle (Response st data) = Inl e) \<longleftrightarrow> \<not> res_ok st)
   \<and> (\<not> res_ok st \<and> data = JsonObject obj \<and> obj (js ''error'') = Some v \<and> truthy v \<longrightarrow>
        sendMessage_settle (Response st data) = Inl (Error (ToString v)))
   \<and> (\<not> res_ok st \<and> \<not> truthy (get_field data (js ''error'')) \<longrightarrow>
        sendMessage_settle (Response st data) = Inl (Error (js ''HTTP '' @ decimal st)))
   \<and> (res_ok st \<and> data = JsonObject obj \<and> obj (js ''response'') = Some v \<and> truthy v \<longrightarrow>
        sendMessage_settle (Response st data) = Inr v)
   \<and> (res_ok st \<and> \<not> truthy (get_field data (js ''response'')) \<longrightarrow>
        sendMessage_settle (Response st data) = Inr (Str []))
   \<and> (get_field data k = Undefined \<longleftrightarrow>
        (\<forall>fs. data = JsonObject fs \<longrightarrow> fs k = None \<or> fs k = Some Undefined))
   \<and> sendMessage_settle (Response st NotJSON)
        = (if res_ok st then Inr (Str []) else Inl (Error (js ''HTTP '' @ decimal st)))
   \<and> sendMessage_settle (NetworkFailure err) = Inl err"
proof -
  have rejects: "(\<exists>e. sendMessage_settle (Response st data) = Inl e) \<longleftrightarrow> \<not> res_ok st"
    by (cases "res_ok st") (simp_all add: sendMessage_settle_ok sendMessage_settle_not_ok)
  have err_field: "sendMessage_settle (Response st data) = Inl (Error (ToString v))"
    if "\<not> res_ok st" "data = JsonObject obj" "obj (js ''error'') = Some v" "truthy v"
    using that by (simp add: sendMessage_settle_not_ok)
  have err_generic: "sendMessage_settle (Response st data) = Inl (Error (js ''HTTP '' @ decimal st))"
    if "\<not> res_ok st" "\<not> truthy (get_field data (js ''error''))"
    using that by (simp add: sendMessage_settle_not_ok)
  have ok_field: "sendMessage_settle (Response st data) = Inr v"
    if "res_ok st" "data = JsonObject obj" "obj (js ''response'') = Some v" "truthy v"
    using that by (simp add: sendMessage_settle_ok)
  have ok_empty: "sendMessage_settle (Response st data) = Inr (Str [])"
    if "res_ok st" "\<not> truthy (get_field data (js ''response''))"
    using that by (simp add: sendMessage_settle_ok)
  have absent: "get_field data k = Undefined \<longleftrightarrow>
        (\<forall>fs. data = JsonObject fs \<longrightarrow> fs k = None \<or> fs k = Some Undefined)"
    by (cases data) (auto split: option.splits)
  have notjson: "sendMessage_settle (Response st NotJSON)
        = (if res_ok st then Inr (Str []) else Inl (Error (js ''HTTP '' @ decimal st)))"
    by (simp add: sendMessage_settle_def)
  have network: "sendMessage_settle (NetworkFailure err) = Inl err"
    by (simp add: sendMessage_settle_def)
  from rejects err_field err_generic ok_field ok_empty absent notjson network
  show ?thesis
    by blast
qed

theorem sendMessage_settle_outcome_witness:
  "sendMessage_settle (Response 404 (JsonObject [js ''error'' \<mapsto> Str (js ''no such route'')]))
     = Inl (Error (js ''no such route''))
   \<and> sendMessage_settle (Response 500 (JsonObject [js ''error'' \<mapsto> Num (js ''42'')]))
     = Inl (Error (js ''42''))
   \<and> sendMessage_settle (Response 500 (JsonObject [js ''detail'' \<mapsto> Str (js ''x'')]))
     = Inl (Error (js ''HTTP '' @ decimal 500))
   \<and> sendMessage_settle (Response 200 (JsonObject [js ''response'' \<mapsto> Str (js ''hi'')]))
     = Inr (Str (js ''hi''))
   \<and> sendMessage_settle (Response 200 (JsonObject [js ''response'' \<mapsto> Num (js ''42'')]))
     = Inr (Num (js ''42''))
   \<and> sendMessage_settle (Response 200 JsonNull) = Inr (Str [])"
proof -
  have bad: "\<not> res_ok 404" "\<not> res_ok 500" and good: "res_ok 200"
    by (simp_all add: res_ok_def)
  have t1: "truthy (Str (js ''no such route''))" and t2: "truthy (Num (js ''42''))"
    and t3: "truthy (Str (js ''hi''))"
    by (simp_all add: js_def)
  have f1: "\<not> truthy (get_field (JsonObject [js ''detail'' \<mapsto> Str (js ''x'')]) (js ''error''))"
    and f2: "\<not> truthy (get_field JsonNull (js ''response''))"
    by (simp_all add: js_def)
  have a: "sendMessage_settle (Response 404 (JsonObject [js ''error'' \<mapsto> Str (js ''no such route'')]))
      = Inl (Error (ToString (Str (js ''no such route''))))"
    using bad(1) t1
      sendMessage_settle_outcome [of 404 "JsonObject [js ''error'' \<mapsto> Str (js ''no such route'')]"
        "[js ''error'' \<mapsto> Str (js ''no such route'')]" "Str (js ''no such route'')"]
    by simp
  have b: "sendMessage_settle (Response 500 (JsonObject [js ''error'' \<mapsto> Num (js ''42'')]))
      = Inl (Error (ToString (Num (js ''42''))))"
    using bad(2) t2
      sendMessage_settle_outcome [of 500 "JsonObject [js ''error'' \<mapsto> Num (js ''42'')]"
        "[js ''error'' \<mapsto> Num (js ''42'')]" "Num (js ''42'')"]
    by simp
  have c: "sendMessage_settle (Response 500 (JsonObject [js ''detail'' \<mapsto> Str (js ''x'')]))
      = Inl (Error (js ''HTTP '' @ decimal 500))"
    using bad(2) f1
      sendMessage_settle_outcome [of 500 "JsonObject [js ''detail'' \<mapsto> Str (js ''x'')]"]
    by blast
  have d: "sendMessage_settle (Response 200 (JsonObject [js ''response'' \<mapsto> Str (js ''hi'')]))
      = Inr (Str (js ''hi''))"
    using good t3
      sendMessage_settle_outcome [of 200 "JsonObject [js ''response'' \<mapsto> Str (js ''hi'')]"
        "[js ''response'' \<mapsto> Str (js ''hi'')]" "Str (js ''hi'')"]
    by simp
  have e: "sendMessage_settle (Response 200 (JsonObject [js ''response'' \<mapsto> Num (js ''42'')]))
      = Inr (Num (js ''42''))"
    using good t2
      sendMessage_settle_outcome [of 200 "JsonObject [js ''response'' \<mapsto> Num (js ''42'')]"
        "[js ''response'' \<mapsto> Num (js ''42'')]" "Num (js ''42'')"]
    by simp
  have f: "sendMessage_settle (Response 200 JsonNull) = Inr (Str [])"
    using good f2 sendMessage_settle_outcome [of 200 JsonNull]
    by blast
  from a b c d e f show ?thesis
    by simp
qed

text \<open>
  Claim C3 as stated fails where a field is there and falsy. With status 500 and
  the \<open>error\<close> field the empty string, the message is the status text and not
  the field; with status 200 and the \<open>response\<close> field the number zero, the
  result is the empty string and not the field.
\<close>

theorem sendMessage_settle_empty_error:
  "get_field (JsonObject [js ''error'' \<mapsto> Str []]) (js ''error'') = Str []
   \<and> sendMessage_settle (Response 500 (JsonObject [js ''error'' \<mapsto> Str []]))
       = Inl (Error (js ''HTTP 500''))
   \<and> sendMessage_settle (Response 500 (JsonObject [js ''error'' \<mapsto> Str []]))
       \<noteq> Inl (Error [])
   \<and> get_field (JsonObject [js ''response'' \<mapsto> Num (js ''0'')]) (js ''response'')
       = Num (js ''0'')
   \<and> sendMessage_settle (Response 200 (JsonObject [js ''response'' \<mapsto> Num (js ''0'')]))
       = Inr (Str [])
   \<and> sendMessage_settle (Response 200 (JsonObject [js ''response'' \<mapsto> Num (js ''0'')]))
       \<noteq> Inr (Num (js ''0''))"
  by (simp add: sendMessage_settle_def res_ok_def decimal.simps js_def)

section \<open>The input controller\<close>

lemma input_or_empty: "(if v \<noteq> [] then v else []) = (v::jsstring)"
  by simp

lemma handleSend_start_empty:
  "trim (inputValue s) = [] \<Longrightarrow> handleSend_start s = s"
  by (simp add: handleSend_start_def input_or_empty)

lemma handleSend_start_send:
  "trim (inputValue s) \<noteq> [] \<Longrightarrow>
   handleSend_start s
     = sendMessage_start (trim (inputValue s))
         ((addUserBubble (Str (trim (inputValue s))) s)\<lparr>inputValue := [], sendDisabled := True\<rparr>)"
  by (simp add: handleSend_start_def input_or_empty Let_def)

lemma handleSend_resume_Inr:
  "handleSend_resume (Inr reply) s
     = (None, (addBotBubble reply False s)\<lparr>sendDisabled := False, inputFocused := True\<rparr>)"
  by (simp add: handleSend_resume_def)

lemma handleSend_resume_Inl:
  "handleSend_resume (Inl err) s
     = (None,
        (addBotBubble
           (Str (js ''Error contacting the AI Advisor: ''
                 @ (if message err \<noteq> [] then message err else js ''request failed'')))
           True (s\<lparr>console := console s @ [err]\<rparr>))
        \<lparr>sendDisabled := False, inputFocused := True\<rparr>)"
  by (simp add: handleSend_resume_def)

lemma chatBox_addUserBubble:
  "chatBox (addUserBubble text s) = chatBox s @ bubble (js ''user-message'') (sanitizeHTML text)"
  by (simp add: addUserBubble_def)

lemma chatBox_addBotBubble:
  "chatBox (addBotBubble text isError s)
     = chatBox s @ bubble (if isError then js ''bot-message error'' else js ''bot-message'')
                     (formatResponse text)"
  by (simp add: addBotBubble_def)

lemma inputValue_addBotBubble: "inputValue (addBotBubble text isError s) = inputValue s"
  by (simp add: addBotBubble_def)

text \<open>
  Claim C8. A send triggered while the trimmed input is empty (an empty or
  white-space-only field) does nothing at all: the whole state of the widget is
  the same afterwards, by \<open>handleSend\<close> itself, by a click and by Enter without
  shift: no bubble, no request, the same field contents and button state, nothing
  logged.
\<close>

theorem empty_input_noop:
  "trim (inputValue s) = [] \<Longrightarrow>
   handleSend_start s = s \<and> step Click s = s \<and> step (Keydown (js ''Enter'') False) s = s"
  by (simp add: handleSend_start_empty)

theorem empty_input_noop_witness:
  "trim (inputValue (fresh_page\<lparr>inputValue := js ''   ''\<rparr>)) = []
   \<and> handleSend_start (fresh_page\<lparr>inputValue := js ''   ''\<rparr>) = fresh_page\<lparr>inputValue := js ''   ''\<rparr>
   \<and> step Click (fresh_page\<lparr>inputValue := js ''   ''\<rparr>) = fresh_page\<lparr>inputValue := js ''   ''\<rparr>
   \<and> step (Keydown (js ''Enter'') False) (fresh_page\<lparr>inputValue := js ''   ''\<rparr>)
       = fresh_page\<lparr>inputValue := js ''   ''\<rparr>"
proof -
  have "trim (inputValue (fresh_page\<lparr>inputValue := js ''   ''\<rparr>)) = []"
    by (simp add: trim_def isWhiteSpace_def js_def)
  then show ?thesis
    using empty_input_noop [of "fresh_page\<lparr>inputValue := js ''   ''\<rparr>"] by blast
qed

text \<open>
  Claim C9. Whatever the outcome of the transport, a rejection or a reply, the
  settled send leaves the send button enabled and the input focused, and no
  exception leaves \<open>handleSend\<close>.
\<close>

theorem handleSend_always_idle:
  "fst (handleSend_resume outcome s) = None
   \<and> sendDisabled (snd (handleSend_resume outcome s)) = False
   \<and> inputFocused (snd (handleSend_resume outcome s)) = True
   \<and> fst (handleSend_settle fr s) = None
   \<and> sendDisabled (step (Settle fr) s) = False
   \<and> inputFocused (step (Settle fr) s) = True"
proof -
  have "fst (handleSend_resume out s) = None
      \<and> sendDisabled (snd (handleSend_resume out s)) = False
      \<and> inputFocused (snd (handleSend_resume out s)) = True" for out
    by (cases out) (simp_all add: handleSend_resume_Inl handleSend_resume_Inr)
  then show ?thesis
    by (simp add: handleSend_settle_def)
qed

text \<open>
  Claim C10. A send with non-empty trimmed text appends the user bubble, empties
  the input field and issues the request before anything settles; the settling
  does not write the field, so it is empty afterwards on the failure path as on
  the success path.
\<close>

theorem input_cleared:
  "trim (inputValue s) \<noteq> [] \<Longrightarrow>
   inputValue (handleSend_start s) = []
   \<and> chatBox (handleSend_start s)
       = chatBox s @ bubble (js ''user-message'') (sanitizeHTML (Str (trim (inputValue s))))
   \<and> requests (handleSend_start s)
       = requests s @ [\<lparr>req_message = trim (inputValue s), req_session_id = sid s\<rparr>]
   \<and> inputValue (snd (handleSend_resume outcome (handleSend_start s))) = []"
proof -
  assume nonempty: "trim (inputValue s) \<noteq> []"
  have resume: "inputValue (snd (handleSend_resume outcome t)) = inputValue t" for t
    by (cases outcome)
       (simp_all add: handleSend_resume_Inl handleSend_resume_Inr inputValue_addBotBubble)
  from nonempty show ?thesis
    by (simp add: resume handleSend_start_send sendMessage_start_def chatBox_addUserBubble
        addUserBubble_def)
qed

theorem input_cleared_witness:
  \<open>inputValue (handleSend_start (fresh_page\<lparr>inputValue := js '' hello ''\<rparr>)) = []
   \<and> chatBox (handleSend_start (fresh_page\<lparr>inputValue := js '' hello ''\<rparr>))
       = js ''<div class="user-message">hello</div>''
   \<and> map req_message (requests (handleSend_start (fresh_page\<lparr>inputValue := js '' hello ''\<rparr>)))
       = [js ''hello'']
   \<and> inputValue (snd (handleSend_resume (Inl (Error (js ''HTTP 500'')))
                         (handleSend_start (fresh_page\<lparr>inputValue := js '' hello ''\<rparr>)))) = []\<close>
proof -
  have t: "trim (inputValue (fresh_page\<lparr>inputValue := js '' hello ''\<rparr>)) = js ''hello''"
    by (simp add: trim_def isWhiteSpace_def js_def)
  then have "trim (inputValue (fresh_page\<lparr>inputValue := js '' hello ''\<rparr>)) \<noteq> []"
    by (simp add: js_def)
  from input_cleared [OF this, of "Inl (Error (js ''HTTP 500''))"] show ?thesis
    unfolding t
    by (simp add: fresh_page_def bubble_def sanitizeHTML_def nullish_text_def serializeText_def
        escapeUnit_def js_def)
qed

lemma http500: "decimal 500 = js ''500''"
  by (simp add: decimal.simps js_def)

text \<open>
  Claim C4, amended. On a transport failure with message \<open>m\<close> the error-styled bot
  bubble holds the text \<open>Error contacting the AI Advisor: \<close> followed by \<open>m\<close>, or
  by \<open>request failed\<close> when \<open>m\<close> is empty; for the message \<open>HTTP 500\<close>, also
  when it comes from a response with status 500, the bubble contains \<open>HTTP 500\<close>.
\<close>

theorem error_bubble:
  \<open>chatBox (snd (handleSend_resume (Inl (Error m)) s))
     = chatBox s @ bubble (js ''bot-message error'')
         (formatResponse (Str (js ''Error contacting the AI Advisor: ''
                               @ (if m = [] then js ''request failed'' else m))))
   \<and> chatBox (snd (handleSend_resume (Inl (Error (js ''HTTP 500''))) s))
     = chatBox s @ js ''<div class="bot-message error">Error contacting the AI Advisor: HTTP 500</div>''
   \<and> chatBox (step (Settle (Response 500 NotJSON)) s)
     = chatBox s @ js ''<div class="bot-message error">Error contacting the AI Advisor: HTTP 500</div>''\<close>
proof -
  have general: "chatBox (snd (handleSend_resume (Inl (Error m)) s))
     = chatBox s @ bubble (js ''bot-message error'')
         (formatResponse (Str (js ''Error contacting the AI Advisor: ''
                               @ (if m = [] then js ''request failed'' else m))))" for m
    by (simp add: handleSend_resume_Inl chatBox_addBotBubble)
  have markup: \<open>bubble (js ''bot-message error'')
         (formatResponse (Str (js ''Error contacting the AI Advisor: '' @ js ''HTTP 500'')))
       = js ''<div class="bot-message error">Error contacting the AI Advisor: HTTP 500</div>''\<close>
    by (simp add: bubble_def formatResponse_def replace_newlines_def sanitizeHTML_def
        nullish_text_def serializeText_def escapeUnit_def js_def)
  have nonempty: "js ''HTTP 500'' \<noteq> []"
    by (simp add: js_def)
  have mock: \<open>chatBox (snd (handleSend_resume (Inl (Error (js ''HTTP 500''))) s))
     = chatBox s @ js ''<div class="bot-message error">Error contacting the AI Advisor: HTTP 500</div>''\<close>
    by (simp only: general nonempty if_False markup)
  have "sendMessage_settle (Response 500 NotJSON) = Inl (Error (js ''HTTP 500''))"
    by (simp add: sendMessage_settle_def res_ok_def http500 js_def)
  then have \<open>chatBox (step (Settle (Response 500 NotJSON)) s)
     = chatBox s @ js ''<div class="bot-message error">Error contacting the AI Advisor: HTTP 500</div>''\<close>
    by (simp only: step.simps handleSend_settle_def mock)
  with general mock show ?thesis
    by blast
qed

text \<open>
  Claim C4 as stated fails: the text of the bubble is not the message alone.
\<close>

theorem error_bubble_text_is_prefixed:
  "chatBox (snd (handleSend_resume (Inl (Error (js ''HTTP 500''))) fresh_page))
     \<noteq> chatBox fresh_page @ bubble (js ''bot-message error'') (formatResponse (Str (js ''HTTP 500'')))"
  by (simp add: handleSend_resume_Inl chatBox_addBotBubble bubble_def formatResponse_def
      replace_newlines_def sanitizeHTML_def nullish_text_def serializeText_def escapeUnit_def
      js_def)

text \<open>
  Claim C1 does not hold of the script. With a send of \<open>a\<close> in flight and the
  button disabled, typing \<open>b\<close> and pressing Enter without shift issues a second
  request and appends a second user bubble: the \<open>keydown\<close> listener calls
  \<open>handleSend\<close> without looking at the button. A click in the same state is
  ignored.
\<close>

theorem enter_while_pending:
  \<open>sendDisabled (step Click (step (Input (js ''a'')) fresh_page))
   \<and> map req_message (requests (step Click (step (Input (js ''a'')) fresh_page))) = [js ''a'']
   \<and> map req_message
        (requests (step (Keydown (js ''Enter'') False)
                     (step (Input (js ''b'')) (step Click (step (Input (js ''a'')) fresh_page)))))
       = [js ''a'', js ''b'']
   \<and> chatBox (step (Keydown (js ''Enter'') False)
                 (step (Input (js ''b'')) (step Click (step (Input (js ''a'')) fresh_page))))
       = chatBox (step Click (step (Input (js ''a'')) fresh_page))
         @ js ''<div class="user-message">b</div>''
   \<and> step Click (step (Input (js ''b'')) (step Click (step (Input (js ''a'')) fresh_page)))
       = step (Input (js ''b'')) (step Click (step (Input (js ''a'')) fresh_page))\<close>
proof -
  have ta: "trim (js ''a'') = js ''a''" and tb: "trim (js ''b'') = js ''b''"
    by (simp_all add: trim_def isWhiteSpace_def js_def)
  have na: "js ''a'' \<noteq> []" and nb: "js ''b'' \<noteq> []"
    by (simp_all add: js_def)
  have ba: \<open>bubble (js ''user-message'') (sanitizeHTML (Str (js ''a''))) = js ''<div class="user-message">a</div>''\<close>
    and bb: \<open>bubble (js ''user-message'') (sanitizeHTML (Str (js ''b''))) = js ''<div class="user-message">b</div>''\<close>
    by (simp_all add: bubble_def sanitizeHTML_def nullish_text_def serializeText_def
        escapeUnit_def js_def)
  have s1: \<open>step Click (step (Input (js ''a'')) fresh_page)
      = fresh_page\<lparr>inputValue := [], sendDisabled := True,
          chatBox := js ''<div class="user-message">a</div>'', scrolls := 1,
          requests := [\<lparr>req_message = js ''a'', req_session_id = sid fresh_page\<rparr>]\<rparr>\<close>
    by (simp add: handleSend_start_def ta na ba sendMessage_start_def addUserBubble_def
        fresh_page_def)
  have s3: \<open>step (Keydown (js ''Enter'') False)
                 (step (Input (js ''b'')) (step Click (step (Input (js ''a'')) fresh_page)))
      = fresh_page\<lparr>inputValue := [], sendDisabled := True,
          chatBox := js ''<div class="user-message">a</div>'' @ js ''<div class="user-message">b</div>'',
          scrolls := 2,
          requests := [\<lparr>req_message = js ''a'', req_session_id = sid fresh_page\<rparr>,
                       \<lparr>req_message = js ''b'', req_session_id = sid fresh_page\<rparr>]\<rparr>\<close>
    unfolding s1
    by (simp add: handleSend_start_def tb nb bb sendMessage_start_def addUserBubble_def
        fresh_page_def)
  show ?thesis
    by (simp only: s3, simp only: s1, simp)
qed

lemma sanitized_escapeUnit: "sanitized (escapeUnit c @ r) = sanitized r"
  by (simp add: escapeUnit_def js_def starts_with_def)

lemma sanitized_serializeText: "sanitized (serializeText s)"
  by (induction s) (simp_all add: serializeText_Cons sanitized_escapeUnit, simp add: serializeText_def)

lemma sanitized_replaced_escapeUnit:
  "sanitized (replace_newlines (escapeUnit c) @ r) = sanitized r"
  by (simp add: escapeUnit_def replace_newlines_def js_def starts_with_def)

lemma sanitized_replace_newlines_serializeText:
  "sanitized (replace_newlines (serializeText s))"
  by (induction s)
     (simp_all add: serializeText_Cons replace_newlines_append sanitized_replaced_escapeUnit,
      simp add: serializeText_def replace_newlines_def)

lemma sanitized_rejects_raw_markup:
  \<open>\<not> sanitized (js ''<img src=x>'') \<and> \<not> sanitized (js ''a & b'')
   \<and> sanitized (js ''a &amp; b<br>'')\<close>
  by (simp add: js_def starts_with_def)

lemma chatBox_handleSend_start:
  "chatBox (handleSend_start s) = chatBox s
   \<or> (\<exists>t. chatBox (handleSend_start s)
             = chatBox s @ bubble (js ''user-message'') (sanitizeHTML t))"
proof (cases "trim (inputValue s) = []")
  case True
  then show ?thesis by (simp add: handleSend_start_empty)
next
  case False
  then have "chatBox (handleSend_start s)
      = chatBox s @ bubble (js ''user-message'') (sanitizeHTML (Str (trim (inputValue s))))"
    by (simp add: handleSend_start_send sendMessage_start_def chatBox_addUserBubble)
  then show ?thesis by blast
qed

lemma chatBox_handleSend_resume:
  "\<exists>t isError. chatBox (snd (handleSend_resume outcome s))
      = chatBox s @ bubble (if isError then js ''bot-message error'' else js ''bot-message'')
                      (formatResponse t)"
proof (cases outcome)
  case (Inl err)
  have "chatBox (snd (handleSend_resume (Inl err) s))
      = chatBox s @ bubble (if True then js ''bot-message error'' else js ''bot-message'')
          (formatResponse (Str (js ''Error contacting the AI Advisor: ''
                 @ (if message err \<noteq> [] then message err else js ''request failed''))))"
    by (simp add: handleSend_resume_Inl chatBox_addBotBubble)
  with Inl show ?thesis by blast
next
  case (Inr reply)
  have "chatBox (snd (handleSend_resume (Inr reply) s))
      = chatBox s @ bubble (if False then js ''bot-message error'' else js ''bot-message'')
          (formatResponse reply)"
    by (simp add: handleSend_resume_Inr chatBox_addBotBubble)
  with Inr show ?thesis by blast
qed

text \<open>
  Claim C2. Whatever happens to the page (a click, a key, an edit of the field,
  a settled request with any reply or any error message, the load of the page),
  the conversation either stays as it is or grows by exactly one bubble, whose
  content is \<open>sanitizeHTML\<close> of a text (user bubble) or \<open>formatResponse\<close> of a
  text (bot bubble); and the output of both is sanitized markup for every input:
  no \<open><\<close> or \<open>>\<close> outside \<open><br>\<close>, no \<open>&\<close> outside the four references.
\<close>

theorem inserted_text_is_sanitized:
  "(chatBox (step e s) = chatBox s
    \<or> (\<exists>t. chatBox (step e s) = chatBox s @ bubble (js ''user-message'') (sanitizeHTML t))
    \<or> (\<exists>t isError. chatBox (step e s)
          = chatBox s @ bubble (if isError then js ''bot-message error'' else js ''bot-message'')
                          (formatResponse t)))
   \<and> sanitized (sanitizeHTML v) \<and> sanitized (formatResponse v)"
proof -
  have safe: "sanitized (sanitizeHTML v) \<and> sanitized (formatResponse v)"
    by (simp add: sanitizeHTML_def formatResponse_def sanitized_serializeText
        sanitized_replace_newlines_serializeText)
  have "chatBox (step e s) = chatBox s
    \<or> (\<exists>t. chatBox (step e s) = chatBox s @ bubble (js ''user-message'') (sanitizeHTML t))
    \<or> (\<exists>t isError. chatBox (step e s)
          = chatBox s @ bubble (if isError then js ''bot-message error'' else js ''bot-message'')
                          (formatResponse t))"
  proof (cases e)
    case Click
    then show ?thesis
      using chatBox_handleSend_start [of s] by auto
  next
    case (Keydown key shiftKey)
    then show ?thesis
      using chatBox_handleSend_start [of s] by auto
  next
    case (Input x)
    then show ?thesis by simp
  next
    case (Settle fr)
    then show ?thesis
      using chatBox_handleSend_resume [of "sendMessage_settle fr" s]
      by (simp add: handleSend_settle_def)
  next
    case (Load found)
    have "chatBox (addBotBubble (Str greeting) False s)
        = chatBox s @ bubble (if False then js ''bot-message error'' else js ''bot-message'')
            (formatResponse (Str greeting))"
      by (simp add: chatBox_addBotBubble)
    with Load show ?thesis
      by (cases found) (simp, simp only: step.simps simp_thms if_True, blast)
  qed
  with safe show ?thesis by blast
qed

end
